theory Spec2Isabelle
  imports Main
begin

section \<open>The DMG background generator of VTS\<close>

text \<open>
  A shallow embedding of \<^verbatim>\<open>scripts/create-dmg-background.py\<close>. The script talks to
  three things outside itself: the Python import system, the Pillow imaging library
  (fonts, text measuring, drawing, saving) and the file system. Each of them is an
  explicit part of the model: what they answer is a field of the record
  \<open>environment\<close>, what the script changes (files, standard output) is the record
  \<open>world\<close>, and every exception is a value of the type \<open>exn\<close>.

  The calls whose outcome depends on what the machine holds are fallible in the model:
  the import, the loading of fonts, the creation of the directory and the opening of the
  output file. The calls that work on objects in memory (creating the canvas, measuring a
  text with a font handle, drawing it) are taken to return.
\<close>

subsection \<open>Exceptions\<close>

datatype exn =
    ImportError
  | ModuleNotFoundError
  | OSError
  | FileExistsError
  | FileNotFoundError
  | NotADirectoryError
  | IsADirectoryError
  | ValueError
  | MemoryError
  | SystemExit int

text \<open>
  The clause \<^verbatim>\<open>except ImportError\<close> catches the class and its subclass
  \<^verbatim>\<open>ModuleNotFoundError\<close>.
\<close>

fun isinstance_ImportError :: "exn \<Rightarrow> bool" where
  "isinstance_ImportError ImportError = True"
| "isinstance_ImportError ModuleNotFoundError = True"
| "isinstance_ImportError _ = False"

text \<open>Sequencing of two fallible steps: the second runs only when the first returns.\<close>

definition and_then :: "exn + 'a \<Rightarrow> ('a \<Rightarrow> exn + 'b) \<Rightarrow> exn + 'b" where
  "and_then m f = (case m of Inl e \<Rightarrow> Inl e | Inr v \<Rightarrow> f v)"

text \<open>
  A \<^verbatim>\<open>try\<close> block with a bare \<^verbatim>\<open>except:\<close> clause: whatever the body raises is
  dropped and the handler runs in its place.
\<close>

definition try_except :: "exn + 'a \<Rightarrow> exn + 'a \<Rightarrow> exn + 'a" where
  "try_except body handler = (case body of Inl _ \<Rightarrow> handler | Inr v \<Rightarrow> Inr v)"

subsection \<open>Fonts, images and files\<close>

text \<open>
  A font handle is either a FreeType font opened from a file at a size and a face index,
  or the library's built-in bitmap font.
\<close>

datatype font =
    FreeTypeFont (font_path: string) (font_size: int) (font_index: nat)
  | BitmapFont

text \<open>One call of \<^verbatim>\<open>draw.text(xy, text, fill=..., font=...)\<close>.\<close>

record text_op =
  op_xy :: "int \<times> int"
  op_text :: string
  op_fill :: string
  op_font :: font

text \<open>
  The canvas: mode, size, the colour it was filled with, and the text drawn on it so far,
  oldest first. A later drawing lies on top of an earlier one.
\<close>

record image =
  im_mode :: string
  im_size :: "int \<times> int"
  im_color :: string
  im_drawn :: "text_op list"

datatype file_data =
    ImageFile string image
  | Bytes string

datatype node =
    Directory
  | RegularFile file_data

type_synonym filesystem = "string \<rightharpoonup> node"

record world =
  fs :: filesystem
  stdout :: "string list"

text \<open>
  What the outside answers. \<open>import_PIL\<close> is the exception the two import statements
  raise, if any. \<open>truetype_raises\<close> says whether opening a font file at a size fails.
  \<open>load_default_result\<close> is the outcome of the n-th call of
  \<^verbatim>\<open>ImageFont.load_default()\<close>, counted from 0. \<open>glyph_box\<close> is the bounding box
  (left, top, right, bottom) of a text set in a font at the origin.
\<close>

record environment =
  import_PIL :: "exn option"
  truetype_raises :: "string \<Rightarrow> int \<Rightarrow> exn option"
  load_default_result :: "nat \<Rightarrow> exn + font"
  glyph_box :: "font \<Rightarrow> string \<Rightarrow> int \<times> int \<times> int \<times> int"

subsection \<open>The library calls the script makes\<close>

text \<open>\<^verbatim>\<open>Image.new(mode, size, color=...)\<close>: a canvas of one colour with nothing drawn.\<close>

definition Image_new :: "string \<Rightarrow> int \<times> int \<Rightarrow> string \<Rightarrow> image" where
  "Image_new m sz c = \<lparr>im_mode = m, im_size = sz, im_color = c, im_drawn = []\<rparr>"

text \<open>
  \<^verbatim>\<open>ImageFont.truetype(font, size)\<close>: the face index is left at its default 0.
\<close>

definition truetype :: "environment \<Rightarrow> string \<Rightarrow> int \<Rightarrow> exn + font" where
  "truetype env p sz =
     (case truetype_raises env p sz of
        Some e \<Rightarrow> Inl e
      | None \<Rightarrow> Inr (FreeTypeFont p sz 0))"

definition load_default :: "environment \<Rightarrow> nat \<Rightarrow> exn + font" where
  "load_default env n = load_default_result env n"

text \<open>\<^verbatim>\<open>draw.textbbox(xy, text, font=...)\<close>: the glyph box moved to \<open>xy\<close>.\<close>

definition textbbox ::
  "environment \<Rightarrow> int \<times> int \<Rightarrow> string \<Rightarrow> font \<Rightarrow> int \<times> int \<times> int \<times> int" where
  "textbbox env xy t f =
     (case glyph_box env f t of
        (l, u, r, b) \<Rightarrow> (fst xy + l, snd xy + u, fst xy + r, snd xy + b))"

fun bbox0 :: "int \<times> int \<times> int \<times> int \<Rightarrow> int" where
  "bbox0 (l, u, r, b) = l"

fun bbox2 :: "int \<times> int \<times> int \<times> int \<Rightarrow> int" where
  "bbox2 (l, u, r, b) = r"

text \<open>\<^verbatim>\<open>draw.text(xy, text, fill=..., font=...)\<close> changes the image the draw object wraps.\<close>

definition draw_text :: "int \<times> int \<Rightarrow> string \<Rightarrow> string \<Rightarrow> font \<Rightarrow> image \<Rightarrow> image" where
  "draw_text xy t c f img =
     img\<lparr>im_drawn := im_drawn img @ [\<lparr>op_xy = xy, op_text = t, op_fill = c, op_font = f\<rparr>]\<rparr>"

text \<open>
  \<^verbatim>\<open>os.path.dirname\<close>: all up to the last slash, without trailing slashes unless it
  consists of slashes only.
\<close>

definition dirname :: "string \<Rightarrow> string" where
  "dirname p =
     (let head = rev (dropWhile (\<lambda>c. c \<noteq> CHR ''/'') (rev p))
      in if head \<noteq> [] \<and> head \<noteq> replicate (length head) (CHR ''/'')
         then rev (dropWhile (\<lambda>c. c = CHR ''/'') (rev head))
         else head)"

text \<open>
  Opening a relative path for writing. The directory part must be a directory (the
  empty directory part is the working directory), and the path itself must not be one.
\<close>

definition open_for_writing :: "string \<Rightarrow> filesystem \<Rightarrow> exn + unit" where
  "open_for_writing p fsys =
     (case (if dirname p = [] then Some Directory else fsys (dirname p)) of
        None \<Rightarrow> Inl FileNotFoundError
      | Some (RegularFile _) \<Rightarrow> Inl NotADirectoryError
      | Some Directory \<Rightarrow>
          (case fsys p of
             Some Directory \<Rightarrow> Inl IsADirectoryError
           | _ \<Rightarrow> Inr ()))"

text \<open>
  \<^verbatim>\<open>img.save(fp, format, quality=...)\<close>: the file is opened for writing and receives the
  encoded image, replacing what it held. The PNG encoder has no use for \<open>quality\<close>.
\<close>

definition Image_save :: "image \<Rightarrow> string \<Rightarrow> string \<Rightarrow> nat \<Rightarrow> filesystem \<Rightarrow> exn + filesystem" where
  "Image_save img p fmt quality fsys =
     and_then (open_for_writing p fsys)
       (\<lambda>_. Inr (fsys(p \<mapsto> RegularFile (ImageFile fmt img))))"

text \<open>\<^verbatim>\<open>os.mkdir\<close> of a name in the working directory.\<close>

definition os_mkdir :: "string \<Rightarrow> filesystem \<Rightarrow> exn + filesystem" where
  "os_mkdir name fsys =
     (case fsys name of
        Some _ \<Rightarrow> Inl FileExistsError
      | None \<Rightarrow> Inr (fsys(name \<mapsto> Directory)))"

text \<open>
  \<^verbatim>\<open>os.makedirs(name, exist_ok=...)\<close> for a name of one component, as the script calls
  it: the error of \<^verbatim>\<open>mkdir\<close> is dropped only when \<open>exist_ok\<close> holds and the name is a
  directory.
\<close>

definition os_makedirs :: "string \<Rightarrow> bool \<Rightarrow> filesystem \<Rightarrow> exn + filesystem" where
  "os_makedirs name exist_ok fsys =
     (case os_mkdir name fsys of
        Inr fsys' \<Rightarrow> Inr fsys'
      | Inl e \<Rightarrow>
          (if \<not> exist_ok \<or> fsys name \<noteq> Some Directory then Inl e else Inr fsys))"

definition py_print :: "string \<Rightarrow> world \<Rightarrow> world" where
  "py_print s w = w\<lparr>stdout := stdout w @ [s]\<rparr>"

text \<open>The decimal digits of a natural number, and \<^verbatim>\<open>str\<close> of an integer.\<close>

fun digits :: "nat \<Rightarrow> string" where
  "digits n =
     (if n < 10 then [''0123456789'' ! n]
      else digits (n div 10) @ [''0123456789'' ! (n mod 10)])"

definition str :: "int \<Rightarrow> string" where
  "str i = (if i < 0 then CHR ''-'' # digits (nat (- i)) else digits (nat i))"

subsection \<open>The script\<close>

definition width :: int where
  "width = 800"

definition height :: int where
  "height = 450"

definition helvetica :: string where
  "helvetica = ''/System/Library/Fonts/Helvetica.ttc''"

definition text1 :: string where
  "text1 = ''Drag VTSApp to Applications''"

definition text2 :: string where
  "text2 = ''Install VTS by dragging the app to the Applications folder''"

definition output_path :: string where
  "output_path = ''scripts/dmg-background.png''"

text \<open>
  Lines 23 to 34 of the script, the nested \<^verbatim>\<open>try\<close> blocks that set
  \<^verbatim>\<open>font_large\<close> and \<^verbatim>\<open>font_small\<close>. The result is a sum so that an exception leaving the
  blocks would show.
\<close>

definition load_fonts :: "environment \<Rightarrow> exn + (font option \<times> font option)" where
  "load_fonts env =
     try_except
       (and_then (truetype env helvetica 24) (\<lambda>font_large.
        and_then (truetype env helvetica 16) (\<lambda>font_small.
        Inr (Some font_large, Some font_small))))
       (try_except
          (and_then (load_default env 0) (\<lambda>font_large.
           and_then (load_default env 1) (\<lambda>font_small.
           Inr (Some font_large, Some font_small))))
          (Inr (None, None)))"

text \<open>
  The measured width of a text, as lines 40 to 41 and 51 to 52 compute it from the
  bounding box at the origin.
\<close>

definition text_width :: "environment \<Rightarrow> string \<Rightarrow> font \<Rightarrow> int" where
  "text_width env t f = bbox2 (textbbox env (0, 0) t f) - bbox0 (textbbox env (0, 0) t f)"

text \<open>
  Lines 37 to 57, the block under \<^verbatim>\<open>if font_large and font_small\<close>. A font object is
  true and \<^verbatim>\<open>None\<close> is false, so the block runs exactly when both handles are fonts.
\<close>

definition draw_instructions ::
  "environment \<Rightarrow> font option \<Rightarrow> font option \<Rightarrow> image \<Rightarrow> image" where
  "draw_instructions env font_large font_small img =
     (case (font_large, font_small) of
        (Some fl, Some fsm) \<Rightarrow>
          (let text1_width = text_width env text1 fl;
               text1_x = (width - text1_width) div 2;
               text1_y = height - 120;
               img1 = draw_text (text1_x + 1, text1_y + 1) text1 ''#cccccc'' fl img;
               img2 = draw_text (text1_x, text1_y) text1 ''#333333'' fl img1;
               text2_width = text_width env text2 fsm;
               text2_x = (width - text2_width) div 2;
               text2_y = text1_y + 35;
               img3 = draw_text (text2_x + 1, text2_y + 1) text2 ''#dddddd'' fsm img2
           in draw_text (text2_x, text2_y) text2 ''#666666'' fsm img3)
      | _ \<Rightarrow> img)"

text \<open>The canvas as it stands when the script reaches the save, lines 16 to 57.\<close>

definition render :: "environment \<Rightarrow> exn + image" where
  "render env =
     (let img = Image_new ''RGB'' (width, height) ''#f5f5f7''
      in and_then (load_fonts env) (\<lambda>(font_large, font_small).
           Inr (draw_instructions env font_large font_small img)))"

text \<open>
  The check mark of the first message is the code point U+2705, here as its UTF-8 bytes.
\<close>

definition created_message :: string where
  "created_message =
     [CHR 0xE2, CHR 0x9C, CHR 0x85]
       @ '' DMG background created: '' @ output_path"

definition size_message :: string where
  "size_message = ''   Size: '' @ str width @ ''x'' @ str height @ '' pixels''"

definition create_dmg_background :: "environment \<Rightarrow> world \<Rightarrow> (exn + string) \<times> world" where
  "create_dmg_background env w =
     (case render env of
        Inl e \<Rightarrow> (Inl e, w)
      | Inr img \<Rightarrow>
          (case Image_save img output_path ''PNG'' 95 (fs w) of
             Inl e \<Rightarrow> (Inl e, w)
           | Inr fsys \<Rightarrow>
               (Inr output_path,
                py_print size_message (py_print created_message (w\<lparr>fs := fsys\<rparr>)))))"

text \<open>
  The package of the second message is U+1F4E6, after a line feed.
\<close>

definition ready_message :: string where
  "ready_message =
     [CHR 0x0A, CHR 0xF0, CHR 0x9F, CHR 0x93, CHR 0xA6]
       @ '' Background is ready for DMG creation!''"

definition arrow_message :: string where
  "arrow_message = ''   The background will show installation instructions and an arrow.''"

text \<open>Lines 67 to 73, the block under \<^verbatim>\<open>if __name__ == '__main__'\<close>.\<close>

definition main :: "environment \<Rightarrow> world \<Rightarrow> (exn + unit) \<times> world" where
  "main env w =
     (case os_makedirs ''scripts'' True (fs w) of
        Inl e \<Rightarrow> (Inl e, w)
      | Inr fsys \<Rightarrow>
          (case create_dmg_background env (w\<lparr>fs := fsys\<rparr>) of
             (Inl e, w1) \<Rightarrow> (Inl e, w1)
           | (Inr _, w1) \<Rightarrow> (Inr (), py_print arrow_message (py_print ready_message w1))))"

definition not_found_message :: string where
  "not_found_message = ''PIL (Pillow) not found. Install with: pip install Pillow''"

text \<open>
  The script run as a program: the guarded import of lines 7 to 12, then the main block.
  \<^verbatim>\<open>exit(1)\<close> raises \<^verbatim>\<open>SystemExit\<close>.
\<close>

definition script :: "environment \<Rightarrow> world \<Rightarrow> (exn + unit) \<times> world" where
  "script env w =
     (case import_PIL env of
        Some e \<Rightarrow>
          (if isinstance_ImportError e
           then (Inl (SystemExit 1), py_print not_found_message w)
           else (Inl e, w))
      | None \<Rightarrow> main env w)"


subsection \<open>Colours\<close>

text \<open>
  \<^verbatim>\<open>ImageColor.getrgb\<close> on the form \<^verbatim>\<open>#rrggbb\<close>, the only form the script uses.
\<close>

definition hex_digit :: "char \<Rightarrow> nat option" where
  "hex_digit c =
     (let n = (of_char c :: nat)
      in if 48 \<le> n \<and> n \<le> 57 then Some (n - 48)
         else if 97 \<le> n \<and> n \<le> 102 then Some (n - 87)
         else if 65 \<le> n \<and> n \<le> 70 then Some (n - 55)
         else None)"

definition hex_pair :: "char \<Rightarrow> char \<Rightarrow> nat option" where
  "hex_pair a b =
     (case (hex_digit a, hex_digit b) of
        (Some h, Some l) \<Rightarrow> Some (16 * h + l)
      | _ \<Rightarrow> None)"

fun getrgb :: "string \<Rightarrow> (nat \<times> nat \<times> nat) option" where
  "getrgb [h, r1, r0, g1, g0, b1, b0] =
     (if h = CHR ''#'' then
        (case (hex_pair r1 r0, hex_pair g1 g0, hex_pair b1 b0) of
           (Some r, Some g, Some b) \<Rightarrow> Some (r, g, b)
         | _ \<Rightarrow> None)
      else None)"
| "getrgb _ = None"

text \<open>One colour is lighter than another when each of its channels is larger.\<close>

definition lighter :: "string \<Rightarrow> string \<Rightarrow> bool" where
  "lighter c d =
     (case (getrgb c, getrgb d) of
        (Some (r, g, b), Some (r', g', b')) \<Rightarrow> r' < r \<and> g' < g \<and> b' < b
      | _ \<Rightarrow> False)"

subsection \<open>Concrete environments\<close>

text \<open>
  Text metrics for the examples: a FreeType font advances half its size per character and
  has a left bearing of one pixel, the bitmap font advances six pixels.
\<close>

fun simple_metrics :: "font \<Rightarrow> string \<Rightarrow> int \<times> int \<times> int \<times> int" where
  "simple_metrics (FreeTypeFont p sz i) t = (1, sz div 4, 2 + int (length t) * (sz div 2), sz)"
| "simple_metrics BitmapFont t = (0, 0, int (length t) * 6, 11)"

text \<open>A machine with Pillow and the Helvetica collection.\<close>

definition env_helvetica :: environment where
  "env_helvetica =
     \<lparr>import_PIL = None,
      truetype_raises = (\<lambda>p sz. if p = helvetica then None else Some OSError),
      load_default_result = (\<lambda>n. Inr BitmapFont),
      glyph_box = simple_metrics\<rparr>"

text \<open>A machine with Pillow where the Helvetica collection cannot be opened.\<close>

definition env_default_only :: environment where
  "env_default_only =
     \<lparr>import_PIL = None,
      truetype_raises = (\<lambda>p sz. Some OSError),
      load_default_result = (\<lambda>n. Inr BitmapFont),
      glyph_box = simple_metrics\<rparr>"

text \<open>A machine with Pillow where no font can be loaded at all.\<close>

definition env_no_fonts :: environment where
  "env_no_fonts =
     \<lparr>import_PIL = None,
      truetype_raises = (\<lambda>p sz. Some OSError),
      load_default_result = (\<lambda>n. Inl OSError),
      glyph_box = simple_metrics\<rparr>"


text \<open>An empty working directory, and one where \<^verbatim>\<open>scripts\<close> is a regular file.\<close>

definition w_fresh :: world where
  "w_fresh = \<lparr>fs = Map.empty, stdout = []\<rparr>"


text \<open>A working directory that holds an empty directory \<^verbatim>\<open>scripts\<close>.\<close>

definition w_existing :: world where
  "w_existing = \<lparr>fs = [''scripts'' \<mapsto> Directory], stdout = []\<rparr>"

text \<open>The canvas before any text is drawn.\<close>

definition blank :: image where
  "blank = \<lparr>im_mode = ''RGB'', im_size = (800, 450), im_color = ''#f5f5f7'', im_drawn = []\<rparr>"

section \<open>Properties\<close>

subsection \<open>How the library calls behave on the paths of the script\<close>

lemma dirname_output_path: "dirname output_path = ''scripts''"
  by (simp add: dirname_def output_path_def)

lemma output_path_neq: "output_path \<noteq> ''scripts''" "''scripts'' \<noteq> output_path"
  by (simp_all add: output_path_def)

lemma Image_save_output:
  "Image_save img output_path fmt q fsys =
     (case fsys ''scripts'' of
        None \<Rightarrow> Inl FileNotFoundError
      | Some (RegularFile d) \<Rightarrow> Inl NotADirectoryError
      | Some Directory \<Rightarrow>
          (case fsys output_path of
             Some Directory \<Rightarrow> Inl IsADirectoryError
           | _ \<Rightarrow> Inr (fsys(output_path \<mapsto> RegularFile (ImageFile fmt img)))))"
  by (simp add: Image_save_def open_for_writing_def dirname_output_path and_then_def
      split: option.splits node.splits)

lemma os_makedirs_scripts:
  "os_makedirs ''scripts'' True fsys =
     (case fsys ''scripts'' of
        None \<Rightarrow> Inr (fsys(''scripts'' \<mapsto> Directory))
      | Some Directory \<Rightarrow> Inr fsys
      | Some (RegularFile d) \<Rightarrow> Inl FileExistsError)"
  by (simp add: os_makedirs_def os_mkdir_def split: option.splits node.splits)




lemma overwrite_older:
  "(m(''scripts'' \<mapsto> Directory, output_path \<mapsto> x))(''scripts'' \<mapsto> Directory, output_path \<mapsto> y)
     = m(''scripts'' \<mapsto> Directory, output_path \<mapsto> y)"
  by (rule ext) (simp add: output_path_neq)

lemma lighter_shades: "lighter ''#cccccc'' ''#333333''" "lighter ''#dddddd'' ''#666666''"
  by (simp_all add: lighter_def hex_pair_def hex_digit_def)

subsection \<open>Font loading and rendering\<close>

lemma load_fonts_eq:
  "load_fonts env = Inr
     (case (truetype env helvetica 24, truetype env helvetica 16) of
        (Inr a, Inr b) \<Rightarrow> (Some a, Some b)
      | _ \<Rightarrow>
        (case (load_default env 0, load_default env 1) of
           (Inr c, Inr d) \<Rightarrow> (Some c, Some d)
         | _ \<Rightarrow> (None, None)))"
  by (simp add: load_fonts_def try_except_def and_then_def split: sum.splits)

lemma fonts_both_or_none:
  "load_fonts env = Inr (a, b) \<Longrightarrow> (a = None \<longleftrightarrow> b = None)"
  using load_fonts_eq [of env] by (auto split: sum.splits)

lemma render_of_fonts:
  "load_fonts env = Inr (a, b) \<Longrightarrow> render env = Inr (draw_instructions env a b blank)"
  by (simp add: render_def and_then_def blank_def Image_new_def width_def height_def)

lemma render_total:
  "\<exists>a b. load_fonts env = Inr (a, b) \<and> render env = Inr (draw_instructions env a b blank)"
proof -
  have "\<exists>x. load_fonts env = Inr x"
    using load_fonts_eq [of env] by blast
  then obtain a b where ab: "load_fonts env = Inr (a, b)"
    by (metis surj_pair)
  then show ?thesis using render_of_fonts by blast
qed

lemma draw_instructions_none:
  "a = None \<or> b = None \<Longrightarrow> draw_instructions env a b img = img"
  by (auto simp add: draw_instructions_def split: option.splits)

lemma draw_instructions_fonts:
  "draw_instructions env (Some fl) (Some fsm) blank =
     blank\<lparr>im_drawn :=
       [\<lparr>op_xy = ((800 - text_width env text1 fl) div 2 + 1, 331), op_text = text1,
           op_fill = ''#cccccc'', op_font = fl\<rparr>,
        \<lparr>op_xy = ((800 - text_width env text1 fl) div 2, 330), op_text = text1,
           op_fill = ''#333333'', op_font = fl\<rparr>,
        \<lparr>op_xy = ((800 - text_width env text2 fsm) div 2 + 1, 366), op_text = text2,
           op_fill = ''#dddddd'', op_font = fsm\<rparr>,
        \<lparr>op_xy = ((800 - text_width env text2 fsm) div 2, 365), op_text = text2,
           op_fill = ''#666666'', op_font = fsm\<rparr>]\<rparr>"
  by (simp add: draw_instructions_def draw_text_def blank_def width_def height_def Let_def)

lemma render_with_fonts:
  "load_fonts env = Inr (Some fl, Some fsm) \<Longrightarrow>
   render env = Inr (blank\<lparr>im_drawn :=
       [\<lparr>op_xy = ((800 - text_width env text1 fl) div 2 + 1, 331), op_text = text1,
           op_fill = ''#cccccc'', op_font = fl\<rparr>,
        \<lparr>op_xy = ((800 - text_width env text1 fl) div 2, 330), op_text = text1,
           op_fill = ''#333333'', op_font = fl\<rparr>,
        \<lparr>op_xy = ((800 - text_width env text2 fsm) div 2 + 1, 366), op_text = text2,
           op_fill = ''#dddddd'', op_font = fsm\<rparr>,
        \<lparr>op_xy = ((800 - text_width env text2 fsm) div 2, 365), op_text = text2,
           op_fill = ''#666666'', op_font = fsm\<rparr>]\<rparr>)"
  by (simp add: render_of_fonts draw_instructions_fonts)

lemma render_without_fonts:
  "load_fonts env = Inr (a, b) \<Longrightarrow> a = None \<or> b = None \<Longrightarrow> render env = Inr blank"
  by (simp add: render_of_fonts draw_instructions_none)

lemma mode_size_draw:
  "im_mode (draw_instructions env a b img) = im_mode img"
  "im_size (draw_instructions env a b img) = im_size img"
  "im_color (draw_instructions env a b img) = im_color img"
  by (simp_all add: draw_instructions_def draw_text_def Let_def split: option.splits)

lemma render_mode_size:
  "render env = Inr img \<Longrightarrow> im_mode img = ''RGB'' \<and> im_size img = (800, 450)"
  using render_total [of env] by (auto simp add: mode_size_draw blank_def)

subsection \<open>The function and the main block in closed form\<close>

lemma create_of_render:
  "render env = Inr img \<Longrightarrow>
   create_dmg_background env w =
     (case Image_save img output_path ''PNG'' 95 (fs w) of
        Inl e \<Rightarrow> (Inl e, w)
      | Inr fsys \<Rightarrow>
          (Inr output_path, w\<lparr>fs := fsys, stdout := stdout w @ [created_message, size_message]\<rparr>))"
  by (simp add: create_dmg_background_def py_print_def split: sum.splits)

lemma main_eq:
  "render env = Inr img \<Longrightarrow>
   main env w =
     (case fs w ''scripts'' of
        Some (RegularFile d) \<Rightarrow> (Inl FileExistsError, w)
      | _ \<Rightarrow>
        (case fs w output_path of
           Some Directory \<Rightarrow>
             (Inl IsADirectoryError, w\<lparr>fs := (fs w)(''scripts'' \<mapsto> Directory)\<rparr>)
         | _ \<Rightarrow>
           (Inr (),
            \<lparr>fs = (fs w)(''scripts'' \<mapsto> Directory,
                          output_path \<mapsto> RegularFile (ImageFile ''PNG'' img)),
             stdout = stdout w @ [created_message, size_message, ready_message, arrow_message]\<rparr>)))"
  by (auto simp add: main_def os_makedirs_scripts create_of_render Image_save_output py_print_def
        output_path_neq fun_upd_idem
      split: option.splits node.splits)

lemma script_ok: "import_PIL env = None \<Longrightarrow> script env w = main env w"
  by (simp add: script_def)



subsection \<open>Runs on the concrete environments\<close>


lemma truetype_helvetica:
  "truetype env_helvetica helvetica 24 = Inr (FreeTypeFont helvetica 24 0)"
  "truetype env_helvetica helvetica 16 = Inr (FreeTypeFont helvetica 16 0)"
  by (simp_all add: truetype_def env_helvetica_def)

lemma load_fonts_default_only:
  "load_fonts env_default_only = Inr (Some BitmapFont, Some BitmapFont)"
  by (simp add: load_fonts_eq truetype_def load_default_def env_default_only_def)


lemma text_width_default_only:
  "text_width env_default_only text1 BitmapFont = 162"
  "text_width env_default_only text2 BitmapFont = 348"
  by (simp_all add: text_width_def textbbox_def env_default_only_def text1_def text2_def)




lemma load_fonts_helvetica:
  "load_fonts env_helvetica
     = Inr (Some (FreeTypeFont helvetica 24 0), Some (FreeTypeFont helvetica 16 0))"
  by (simp add: load_fonts_eq truetype_def env_helvetica_def)

lemma text_width_helvetica:
  "text_width env_helvetica text1 (FreeTypeFont helvetica 24 0) = 325"
  "text_width env_helvetica text2 (FreeTypeFont helvetica 16 0) = 465"
  by (simp_all add: text_width_def textbbox_def env_helvetica_def text1_def text2_def)

lemma run_helvetica_fresh:
  "script env_helvetica w_fresh =
     (Inr (),
      \<lparr>fs = [''scripts'' \<mapsto> Directory,
              output_path \<mapsto> RegularFile (ImageFile ''PNG'' (blank\<lparr>im_drawn :=
       [\<lparr>op_xy = (238, 331), op_text = text1, op_fill = ''#cccccc'',
           op_font = FreeTypeFont helvetica 24 0\<rparr>,
        \<lparr>op_xy = (237, 330), op_text = text1, op_fill = ''#333333'',
           op_font = FreeTypeFont helvetica 24 0\<rparr>,
        \<lparr>op_xy = (168, 366), op_text = text2, op_fill = ''#dddddd'',
           op_font = FreeTypeFont helvetica 16 0\<rparr>,
        \<lparr>op_xy = (167, 365), op_text = text2, op_fill = ''#666666'',
           op_font = FreeTypeFont helvetica 16 0\<rparr>]\<rparr>))],
       stdout = [created_message, size_message, ready_message, arrow_message]\<rparr>)"
proof -
  have imp: "import_PIL env_helvetica = None"
    by (simp add: env_helvetica_def)
  show ?thesis
    by (simp add: script_ok [OF imp] main_eq [OF render_with_fonts [OF load_fonts_helvetica]]
        text_width_helvetica w_fresh_def)
qed

section \<open>The claims\<close>

text \<open>
  Claim C1. Every run that completes normally has written, at the fixed relative path
  \<^verbatim>\<open>scripts/dmg-background.png\<close>, a PNG of an image in mode RGB that measures exactly
  800 by 450 pixels, whichever tier of the font fallback was taken. The same holds for
  a direct call of the function that returns, and the path it returns is that path.
\<close>

theorem saved_image_is_rgb_png_800x450:
  "(fst (script env w) = Inr () \<longrightarrow>
      (\<exists>img. fs (snd (script env w)) ''scripts/dmg-background.png''
                = Some (RegularFile (ImageFile ''PNG'' img))
             \<and> im_mode img = ''RGB'' \<and> im_size img = (800, 450)))
   \<and> (\<forall>p. fst (create_dmg_background env w) = Inr p \<longrightarrow>
        p = ''scripts/dmg-background.png''
        \<and> (\<exists>img. fs (snd (create_dmg_background env w)) ''scripts/dmg-background.png''
                = Some (RegularFile (ImageFile ''PNG'' img))
             \<and> im_mode img = ''RGB'' \<and> im_size img = (800, 450)))"
proof -
  obtain a b where r: "render env = Inr (draw_instructions env a b blank)"
    using render_total by blast
  let ?img = "draw_instructions env a b blank"
  have ms: "im_mode ?img = ''RGB'' \<and> im_size ?img = (800, 450)"
    using render_mode_size [OF r] .
  have op: "output_path = ''scripts/dmg-background.png''"
    by (simp add: output_path_def)
  have A: "fst (script env w) = Inr () \<longrightarrow>
      fs (snd (script env w)) ''scripts/dmg-background.png''
        = Some (RegularFile (ImageFile ''PNG'' ?img))"
    by (auto simp add: script_def main_eq [OF r] op [symmetric]
        split: option.splits node.splits if_splits)
  have B: "\<forall>p. fst (create_dmg_background env w) = Inr p \<longrightarrow>
        p = ''scripts/dmg-background.png'' \<and>
        fs (snd (create_dmg_background env w)) ''scripts/dmg-background.png''
          = Some (RegularFile (ImageFile ''PNG'' ?img))"
    by (auto simp add: create_of_render [OF r] Image_save_output op [symmetric]
        split: option.splits node.splits sum.splits)
  show ?thesis using A B ms by blast
qed

theorem saved_image_is_rgb_png_800x450_witness:
  "fst (script env_helvetica w_fresh) = Inr ()
   \<and> (\<exists>img. fs (snd (script env_helvetica w_fresh)) ''scripts/dmg-background.png''
                = Some (RegularFile (ImageFile ''PNG'' img))
             \<and> im_mode img = ''RGB'' \<and> im_size img = (800, 450))"
  using saved_image_is_rgb_png_800x450 [of env_helvetica w_fresh]
  by (simp add: run_helvetica_fresh)

text \<open>
  Claim C2. Font resolution is an ordered fallback in which the first success wins: the
  named system font at 24pt for the large handle and at 16pt for the small one; when
  either of these raises, the library's default font for both; when either of those
  raises, no font. Whatever a tier raises is swallowed: font loading itself always
  yields a pair of handles, rendering always yields a canvas, and what a caller of the
  function sees is decided by the save alone.
\<close>

theorem load_fonts_ordered_fallback:
  "load_fonts env = Inr
     (case (truetype env helvetica 24, truetype env helvetica 16) of
        (Inr a, Inr b) \<Rightarrow> (Some a, Some b)
      | _ \<Rightarrow>
        (case (load_default env 0, load_default env 1) of
           (Inr c, Inr d) \<Rightarrow> (Some c, Some d)
         | _ \<Rightarrow> (None, None)))
   \<and> (\<forall>a. truetype env helvetica 24 = Inr a \<longrightarrow> a = FreeTypeFont helvetica 24 0)
   \<and> (\<forall>b. truetype env helvetica 16 = Inr b \<longrightarrow> b = FreeTypeFont helvetica 16 0)
   \<and> (\<exists>img. render env = Inr img \<and>
        fst (create_dmg_background env w)
          = map_sum id (\<lambda>_. output_path) (Image_save img output_path ''PNG'' 95 (fs w)))"
proof -
  obtain a b where ab: "load_fonts env = Inr (a, b)"
      and r: "render env = Inr (draw_instructions env a b blank)"
    using render_total by blast
  have "fst (create_dmg_background env w)
          = map_sum id (\<lambda>_. output_path)
              (Image_save (draw_instructions env a b blank) output_path ''PNG'' 95 (fs w))"
    by (simp add: create_of_render [OF r] split: sum.splits)
  moreover have "\<forall>a. truetype env helvetica 24 = Inr a \<longrightarrow> a = FreeTypeFont helvetica 24 0"
    by (auto simp add: truetype_def split: option.splits)
  moreover have "\<forall>b. truetype env helvetica 16 = Inr b \<longrightarrow> b = FreeTypeFont helvetica 16 0"
    by (auto simp add: truetype_def split: option.splits)
  ultimately show ?thesis using load_fonts_eq r by blast
qed

theorem load_fonts_ordered_fallback_witness:
  "load_fonts env_helvetica
     = Inr (Some (FreeTypeFont helvetica 24 0), Some (FreeTypeFont helvetica 16 0))
   \<and> load_fonts env_default_only = Inr (Some BitmapFont, Some BitmapFont)
   \<and> load_fonts env_no_fonts = Inr (None, None)
   \<and> truetype env_helvetica helvetica 24 = Inr (FreeTypeFont helvetica 24 0)
   \<and> truetype env_helvetica helvetica 16 = Inr (FreeTypeFont helvetica 16 0)"
  using load_fonts_ordered_fallback [of env_helvetica w_fresh]
    load_fonts_ordered_fallback [of env_default_only w_fresh]
    load_fonts_ordered_fallback [of env_no_fonts w_fresh]
  by (simp add: truetype_def load_default_def env_helvetica_def env_default_only_def
      env_no_fonts_def)




text \<open>
  Claim C4. For each line drawn with a resolved font, the horizontal start position is
  the canvas width 800 less the measured text width, halved with floor division, and the
  vertical positions are fixed: line 1 at the height 450 less 120, line 2 a further 35
  below. The shadow of each line sits one pixel to the right and below. The start
  position centres the measured width to within one pixel: the margin right of the text
  exceeds the margin left of it by 0 or 1.
\<close>

theorem text_placement:
  "load_fonts env = Inr (Some fl, Some fsm) \<Longrightarrow>
   (\<exists>img. render env = Inr img \<and>
      map op_xy (im_drawn img) =
        [((800 - text_width env text1 fl) div 2 + 1, 450 - 120 + 1),
         ((800 - text_width env text1 fl) div 2, 450 - 120),
         ((800 - text_width env text2 fsm) div 2 + 1, 450 - 120 + 35 + 1),
         ((800 - text_width env text2 fsm) div 2, 450 - 120 + 35)])
   \<and> width = 800 \<and> height = 450
   \<and> (\<forall>t f. 0 \<le> (800 - ((800 - text_width env t f) div 2 + text_width env t f))
                   - (800 - text_width env t f) div 2
          \<and> (800 - ((800 - text_width env t f) div 2 + text_width env t f))
                   - (800 - text_width env t f) div 2 \<le> 1)"
proof -
  assume lf: "load_fonts env = Inr (Some fl, Some fsm)"
  have "\<forall>t f. 0 \<le> (800 - ((800 - text_width env t f) div 2 + text_width env t f))
                   - (800 - text_width env t f) div 2
          \<and> (800 - ((800 - text_width env t f) div 2 + text_width env t f))
                   - (800 - text_width env t f) div 2 \<le> 1"
    by (intro allI) presburger
  then show ?thesis
    using render_with_fonts [OF lf] by (simp add: width_def height_def)
qed

theorem text_placement_witness:
  "load_fonts env_helvetica
     = Inr (Some (FreeTypeFont helvetica 24 0), Some (FreeTypeFont helvetica 16 0))
   \<and> text_width env_helvetica text1 (FreeTypeFont helvetica 24 0) = 325
   \<and> text_width env_helvetica text2 (FreeTypeFont helvetica 16 0) = 465
   \<and> (\<exists>img. render env_helvetica = Inr img \<and>
        map op_xy (im_drawn img) = [(238, 331), (237, 330), (168, 366), (167, 365)])"
  using text_placement [OF load_fonts_helvetica]
  by (simp add: load_fonts_helvetica text_width_helvetica)

text \<open>
  Claim C5. Whenever a font is resolved, both handles are fonts and each of the two
  lines is drawn exactly twice, in a fixed order: first the copy offset by one pixel in
  x and in y, in the lighter shade, then the text itself in the darker colour at the
  position without offset, so that it lies on top.
\<close>

theorem shadow_before_text:
  "load_fonts env = Inr (a, b) \<Longrightarrow> a \<noteq> None \<or> b \<noteq> None \<Longrightarrow>
   (\<exists>fl fsm x1 x2. a = Some fl \<and> b = Some fsm \<and>
      render env = Inr (blank\<lparr>im_drawn :=
        [\<lparr>op_xy = (x1 + 1, 330 + 1), op_text = text1, op_fill = ''#cccccc'', op_font = fl\<rparr>,
         \<lparr>op_xy = (x1, 330), op_text = text1, op_fill = ''#333333'', op_font = fl\<rparr>,
         \<lparr>op_xy = (x2 + 1, 365 + 1), op_text = text2, op_fill = ''#dddddd'', op_font = fsm\<rparr>,
         \<lparr>op_xy = (x2, 365), op_text = text2, op_fill = ''#666666'', op_font = fsm\<rparr>]\<rparr>))
   \<and> lighter ''#cccccc'' ''#333333'' \<and> lighter ''#dddddd'' ''#666666''"
proof -
  assume lf: "load_fonts env = Inr (a, b)" and some: "a \<noteq> None \<or> b \<noteq> None"
  from fonts_both_or_none [OF lf] some obtain fl fsm where ab: "a = Some fl" "b = Some fsm"
    by auto
  have "render env = Inr (blank\<lparr>im_drawn :=
        [\<lparr>op_xy = ((800 - text_width env text1 fl) div 2 + 1, 330 + 1), op_text = text1,
            op_fill = ''#cccccc'', op_font = fl\<rparr>,
         \<lparr>op_xy = ((800 - text_width env text1 fl) div 2, 330), op_text = text1,
            op_fill = ''#333333'', op_font = fl\<rparr>,
         \<lparr>op_xy = ((800 - text_width env text2 fsm) div 2 + 1, 365 + 1), op_text = text2,
            op_fill = ''#dddddd'', op_font = fsm\<rparr>,
         \<lparr>op_xy = ((800 - text_width env text2 fsm) div 2, 365), op_text = text2,
            op_fill = ''#666666'', op_font = fsm\<rparr>]\<rparr>)"
    using render_with_fonts [of env fl fsm] lf ab by simp
  then show ?thesis using ab lighter_shades by blast
qed

theorem shadow_before_text_witness:
  "load_fonts env_default_only = Inr (Some BitmapFont, Some BitmapFont)
   \<and> (\<exists>x1 x2.
      render env_default_only = Inr (blank\<lparr>im_drawn :=
        [\<lparr>op_xy = (x1 + 1, 330 + 1), op_text = text1, op_fill = ''#cccccc'', op_font = BitmapFont\<rparr>,
         \<lparr>op_xy = (x1, 330), op_text = text1, op_fill = ''#333333'', op_font = BitmapFont\<rparr>,
         \<lparr>op_xy = (x2 + 1, 365 + 1), op_text = text2, op_fill = ''#dddddd'', op_font = BitmapFont\<rparr>,
         \<lparr>op_xy = (x2, 365), op_text = text2, op_fill = ''#666666'', op_font = BitmapFont\<rparr>]\<rparr>))"
  using shadow_before_text [OF load_fonts_default_only]
  by (simp add: load_fonts_default_only)




text \<open>
  Claim C7. Running the generator where the directory \<^verbatim>\<open>scripts\<close> already exists
  gives the same result as running it where the directory is absent: the same outcome
  without error, the same output, the same files afterwards. This holds for an existing
  directory that is empty and for one that holds an earlier output file, which is
  overwritten. The directory creation raises nothing in either case and leaves the same
  file system.
\<close>

theorem makedirs_existing_or_absent:
  "fs w ''scripts'' = None \<Longrightarrow> fs w output_path = None \<Longrightarrow>
     main env (w\<lparr>fs := (fs w)(''scripts'' \<mapsto> Directory)\<rparr>) = main env w
   \<and> (\<forall>old. main env (w\<lparr>fs := (fs w)(''scripts'' \<mapsto> Directory,
                                      output_path \<mapsto> RegularFile old)\<rparr>) = main env w)
   \<and> fst (main env w) = Inr ()
   \<and> (\<exists>img. render env = Inr img
         \<and> fs (snd (main env w)) output_path = Some (RegularFile (ImageFile ''PNG'' img)))
   \<and> os_makedirs ''scripts'' True (fs w) = Inr ((fs w)(''scripts'' \<mapsto> Directory))
   \<and> os_makedirs ''scripts'' True ((fs w)(''scripts'' \<mapsto> Directory))
       = Inr ((fs w)(''scripts'' \<mapsto> Directory))"
proof -
  assume s: "fs w ''scripts'' = None" and t: "fs w output_path = None"
  obtain a b where r: "render env = Inr (draw_instructions env a b blank)"
    using render_total by blast
  have A: "main env (w\<lparr>fs := (fs w)(''scripts'' \<mapsto> Directory)\<rparr>) = main env w"
    using s t by (simp add: main_eq [OF r] output_path_neq)
  have B: "\<forall>old. main env (w\<lparr>fs := (fs w)(''scripts'' \<mapsto> Directory,
                                      output_path \<mapsto> RegularFile old)\<rparr>) = main env w"
    using s t by (simp add: main_eq [OF r] output_path_neq overwrite_older)
  have C: "fst (main env w) = Inr ()
     \<and> fs (snd (main env w)) output_path
         = Some (RegularFile (ImageFile ''PNG'' (draw_instructions env a b blank)))"
    using s t by (simp add: main_eq [OF r])
  have D: "os_makedirs ''scripts'' True (fs w) = Inr ((fs w)(''scripts'' \<mapsto> Directory))
   \<and> os_makedirs ''scripts'' True ((fs w)(''scripts'' \<mapsto> Directory))
       = Inr ((fs w)(''scripts'' \<mapsto> Directory))"
    using s by (simp add: os_makedirs_scripts)
  show ?thesis using A B C D r by blast
qed

theorem makedirs_existing_or_absent_witness:
  "fs w_fresh ''scripts'' = None \<and> fs w_fresh output_path = None
   \<and> main env_helvetica w_existing = main env_helvetica w_fresh
   \<and> fst (main env_helvetica w_fresh) = Inr ()
   \<and> os_makedirs ''scripts'' True (fs w_fresh) = Inr (fs w_existing)
   \<and> os_makedirs ''scripts'' True (fs w_existing) = Inr (fs w_existing)"
proof -
  have s: "fs w_fresh ''scripts'' = None" and t: "fs w_fresh output_path = None"
    by (simp_all add: w_fresh_def)
  have e: "w_fresh\<lparr>fs := (fs w_fresh)(''scripts'' \<mapsto> Directory)\<rparr> = w_existing"
    by (simp add: w_fresh_def w_existing_def)
  have f: "fs w_existing = (fs w_fresh)(''scripts'' \<mapsto> Directory)"
    by (simp add: w_fresh_def w_existing_def)
  have g: "main env_helvetica w_existing = main env_helvetica w_fresh
     \<and> fst (main env_helvetica w_fresh) = Inr ()
     \<and> os_makedirs ''scripts'' True (fs w_fresh) = Inr ((fs w_fresh)(''scripts'' \<mapsto> Directory))
     \<and> os_makedirs ''scripts'' True ((fs w_fresh)(''scripts'' \<mapsto> Directory))
          = Inr ((fs w_fresh)(''scripts'' \<mapsto> Directory))"
    using makedirs_existing_or_absent [OF s t, of env_helvetica] unfolding e by blast
  show ?thesis using g s t unfolding f by blast
qed

text \<open>
  Claim C8 says that the first line is rendered in a bold font at 24pt and the second
  in a smaller 16pt font. Where the Helvetica collection cannot be opened, the fallback
  gives both handles the library's default font, and both lines are drawn in that one
  font: neither at 24pt nor at 16pt, and the second no smaller than the first.
\<close>

theorem default_tier_fonts_counterexample:
  "load_fonts env_default_only = Inr (Some BitmapFont, Some BitmapFont)
   \<and> render env_default_only = Inr (blank\<lparr>im_drawn :=
       [\<lparr>op_xy = (320, 331), op_text = text1, op_fill = ''#cccccc'', op_font = BitmapFont\<rparr>,
        \<lparr>op_xy = (319, 330), op_text = text1, op_fill = ''#333333'', op_font = BitmapFont\<rparr>,
        \<lparr>op_xy = (227, 366), op_text = text2, op_fill = ''#dddddd'', op_font = BitmapFont\<rparr>,
        \<lparr>op_xy = (226, 365), op_text = text2, op_fill = ''#666666'', op_font = BitmapFont\<rparr>]\<rparr>)
   \<and> BitmapFont \<noteq> FreeTypeFont helvetica 24 0
   \<and> BitmapFont \<noteq> FreeTypeFont helvetica 16 0"
  by (simp add: load_fonts_default_only render_with_fonts [OF load_fonts_default_only]
      text_width_default_only)

text \<open>
  Claim C8, as the script has it. When the named system font opens at both sizes, the
  handles are that font file at 24pt and at the smaller 16pt, both with the face index 0
  that \<^verbatim>\<open>truetype\<close> takes when none is given. In every case where fonts are resolved,
  the first line, shadow and text, is drawn with the large handle and the second line
  with the small handle.
\<close>

theorem line_fonts:
  "(\<forall>a b. truetype env helvetica 24 = Inr a \<and> truetype env helvetica 16 = Inr b \<longrightarrow>
      a = FreeTypeFont helvetica 24 0 \<and> b = FreeTypeFont helvetica 16 0
      \<and> font_size b < font_size a
      \<and> load_fonts env = Inr (Some a, Some b))
   \<and> (\<forall>fl fsm. load_fonts env = Inr (Some fl, Some fsm) \<longrightarrow>
        (\<exists>img. render env = Inr img \<and>
           map (\<lambda>d. (op_text d, op_font d)) (im_drawn img)
             = [(text1, fl), (text1, fl), (text2, fsm), (text2, fsm)]))"
proof -
  have A: "\<forall>a b. truetype env helvetica 24 = Inr a \<and> truetype env helvetica 16 = Inr b \<longrightarrow>
      a = FreeTypeFont helvetica 24 0 \<and> b = FreeTypeFont helvetica 16 0
      \<and> font_size b < font_size a
      \<and> load_fonts env = Inr (Some a, Some b)"
    by (auto simp add: load_fonts_eq truetype_def split: option.splits)
  have B: "\<forall>fl fsm. load_fonts env = Inr (Some fl, Some fsm) \<longrightarrow>
        (\<exists>img. render env = Inr img \<and>
           map (\<lambda>d. (op_text d, op_font d)) (im_drawn img)
             = [(text1, fl), (text1, fl), (text2, fsm), (text2, fsm)])"
    by (simp add: render_with_fonts)
  show ?thesis using A B by blast
qed

theorem line_fonts_witness:
  "truetype env_helvetica helvetica 24 = Inr (FreeTypeFont helvetica 24 0)
   \<and> truetype env_helvetica helvetica 16 = Inr (FreeTypeFont helvetica 16 0)
   \<and> load_fonts env_helvetica
        = Inr (Some (FreeTypeFont helvetica 24 0), Some (FreeTypeFont helvetica 16 0))
   \<and> (\<exists>img. render env_helvetica = Inr img \<and>
           map (\<lambda>d. (op_text d, op_font d)) (im_drawn img)
             = [(text1, FreeTypeFont helvetica 24 0), (text1, FreeTypeFont helvetica 24 0),
                (text2, FreeTypeFont helvetica 16 0), (text2, FreeTypeFont helvetica 16 0)])"
  using line_fonts [of env_helvetica] truetype_helvetica by blast

text \<open>
  Claim C9. After font resolution the large handle is \<^verbatim>\<open>None\<close> if and only if the
  small handle is, and both handles come from one tier: both from the named system font,
  or both from the default font, or both \<^verbatim>\<open>None\<close>. So the canvas carries either both
  lines of text or none.
\<close>

theorem font_handles_same_tier:
  "\<exists>a b. load_fonts env = Inr (a, b) \<and> (a = None \<longleftrightarrow> b = None) \<and>
     ((\<exists>f g. truetype env helvetica 24 = Inr f \<and> truetype env helvetica 16 = Inr g
             \<and> a = Some f \<and> b = Some g)
      \<or> (\<exists>f g. load_default env 0 = Inr f \<and> load_default env 1 = Inr g
             \<and> a = Some f \<and> b = Some g)
      \<or> (a = None \<and> b = None)) \<and>
     (\<exists>img. render env = Inr img \<and>
        map op_text (im_drawn img) = (if a = None then [] else [text1, text1, text2, text2]))"
proof -
  obtain a b where lf: "load_fonts env = Inr (a, b)"
    using render_total by blast
  have iff: "a = None \<longleftrightarrow> b = None"
    using fonts_both_or_none [OF lf] .
  have tier: "(\<exists>f g. truetype env helvetica 24 = Inr f \<and> truetype env helvetica 16 = Inr g
             \<and> a = Some f \<and> b = Some g)
      \<or> (\<exists>f g. load_default env 0 = Inr f \<and> load_default env 1 = Inr g
             \<and> a = Some f \<and> b = Some g)
      \<or> (a = None \<and> b = None)"
    using lf load_fonts_eq [of env] by (auto split: sum.splits)
  have drawn: "\<exists>img. render env = Inr img \<and>
        map op_text (im_drawn img) = (if a = None then [] else [text1, text1, text2, text2])"
  proof (cases a)
    case None
    then show ?thesis using render_without_fonts [OF lf] by (simp add: blank_def)
  next
    case (Some fl)
    then obtain fsm where "b = Some fsm" using iff by auto
    with Some lf show ?thesis using render_with_fonts [of env fl fsm] by simp
  qed
  show ?thesis using lf iff tier drawn by blast
qed

theorem font_handles_same_tier_witness:
  "load_fonts env_default_only = Inr (Some BitmapFont, Some BitmapFont)
   \<and> load_default env_default_only 0 = Inr BitmapFont
   \<and> load_default env_default_only 1 = Inr BitmapFont
   \<and> (\<exists>img. render env_default_only = Inr img \<and>
        map op_text (im_drawn img) = [text1, text1, text2, text2])"
proof -
  have ld: "load_default env_default_only 0 = Inr BitmapFont"
      "load_default env_default_only 1 = Inr BitmapFont"
    by (simp_all add: load_default_def env_default_only_def)
  have "\<exists>img. render env_default_only = Inr img \<and>
        map op_text (im_drawn img) = [text1, text1, text2, text2]"
    using font_handles_same_tier [of env_default_only]
    by (auto simp add: load_fonts_default_only)
  then show ?thesis using ld load_fonts_default_only by simp
qed

text \<open>
  Claim C10. The function \<^verbatim>\<open>create_dmg_background\<close> never creates the output
  directory: whatever it does, the entry \<^verbatim>\<open>scripts\<close> of the file system is as before.
  Called where the directory does not exist, it fails at the save with
  \<^verbatim>\<open>FileNotFoundError\<close>, which it does not handle, and leaves files and output
  untouched. The directory is created by the main block before the call: on the same
  file system the main block returns and the directory exists afterwards.
\<close>

theorem create_dmg_background_needs_directory:
  "(fs w ''scripts'' = None \<longrightarrow>
      (\<exists>img. render env = Inr img
         \<and> Image_save img output_path ''PNG'' 95 (fs w) = Inl FileNotFoundError)
      \<and> create_dmg_background env w = (Inl FileNotFoundError, w))
   \<and> fs (snd (create_dmg_background env w)) ''scripts'' = fs w ''scripts''
   \<and> (fs w ''scripts'' = None \<and> fs w output_path = None \<longrightarrow>
        fst (main env w) = Inr () \<and> fs (snd (main env w)) ''scripts'' = Some Directory)"
proof -
  obtain a b where r: "render env = Inr (draw_instructions env a b blank)"
    using render_total by blast
  have A: "fs w ''scripts'' = None \<longrightarrow>
      Image_save (draw_instructions env a b blank) output_path ''PNG'' 95 (fs w)
        = Inl FileNotFoundError
      \<and> create_dmg_background env w = (Inl FileNotFoundError, w)"
    by (simp add: create_of_render [OF r] Image_save_output)
  have B: "fs (snd (create_dmg_background env w)) ''scripts'' = fs w ''scripts''"
    by (simp add: create_of_render [OF r] Image_save_output output_path_neq
        split: option.splits node.splits)
  have C: "fs w ''scripts'' = None \<and> fs w output_path = None \<longrightarrow>
        fst (main env w) = Inr () \<and> fs (snd (main env w)) ''scripts'' = Some Directory"
    by (simp add: main_eq [OF r] output_path_neq)
  show ?thesis using A B C r by blast
qed

theorem create_dmg_background_needs_directory_witness:
  "fs w_fresh ''scripts'' = None \<and> fs w_fresh output_path = None
   \<and> create_dmg_background env_helvetica w_fresh = (Inl FileNotFoundError, w_fresh)
   \<and> fst (main env_helvetica w_fresh) = Inr ()
   \<and> fs (snd (main env_helvetica w_fresh)) ''scripts'' = Some Directory"
proof -
  have s: "fs w_fresh ''scripts'' = None" and t: "fs w_fresh output_path = None"
    by (simp_all add: w_fresh_def)
  show ?thesis
    using create_dmg_background_needs_directory [of w_fresh env_helvetica] s t by blast
qed

end
